theory Spec2Isabelle
  imports Complex_Main
begin

section \<open>Python floats\<close>

text \<open>
  Losses and correlations are Python/numpy floats. They are modelled as the reals
  extended by the two infinities and NaN, with exact arithmetic on the finite part
  (rounding is not modelled; no property below depends on it). What matters for the
  control flow of \<^verbatim>\<open>Trainer.train\<close> is IEEE comparison: every comparison with NaN
  is false, and nothing is below \<open>-inf\<close> or above \<open>+inf\<close>.
\<close>

datatype pyfloat = Fin real | PInf | NInf | NaN

text \<open>\<^verbatim>\<open>a < b\<close> on floats.\<close>

fun flt :: "pyfloat \<Rightarrow> pyfloat \<Rightarrow> bool" where
  "flt (Fin x) (Fin y) = (x < y)"
| "flt (Fin x) PInf = True"
| "flt NInf (Fin y) = True"
| "flt NInf PInf = True"
| "flt _ _ = False"

text \<open>\<^verbatim>\<open>a > b\<close> on floats.\<close>

definition fgt :: "pyfloat \<Rightarrow> pyfloat \<Rightarrow> bool" where
  "fgt a b = flt b a"

fun fneg :: "pyfloat \<Rightarrow> pyfloat" where
  "fneg (Fin x) = Fin (- x)"
| "fneg PInf = NInf"
| "fneg NInf = PInf"
| "fneg NaN = NaN"

fun fadd :: "pyfloat \<Rightarrow> pyfloat \<Rightarrow> pyfloat" where
  "fadd (Fin x) (Fin y) = Fin (x + y)"
| "fadd NaN _ = NaN"
| "fadd _ NaN = NaN"
| "fadd PInf NInf = NaN"
| "fadd NInf PInf = NaN"
| "fadd PInf _ = PInf"
| "fadd _ PInf = PInf"
| "fadd NInf _ = NInf"
| "fadd _ NInf = NInf"

definition fsub :: "pyfloat \<Rightarrow> pyfloat \<Rightarrow> pyfloat" where
  "fsub a b = fadd a (fneg b)"

fun fabs :: "pyfloat \<Rightarrow> pyfloat" where
  "fabs (Fin x) = Fin \<bar>x\<bar>"
| "fabs PInf = PInf"
| "fabs NInf = PInf"
| "fabs NaN = NaN"

text \<open>Division of a float by a positive count (the last step of a mean).\<close>

fun fdivn :: "pyfloat \<Rightarrow> nat \<Rightarrow> pyfloat" where
  "fdivn (Fin x) n = Fin (x / real n)"
| "fdivn a n = a"

text \<open>
  \<^verbatim>\<open>np.mean(batch_losses)\<close>: the mean of an empty list is NaN (numpy warns and
  returns \<^verbatim>\<open>nan\<close>, it does not raise).
\<close>

definition np_mean :: "pyfloat list \<Rightarrow> pyfloat" where
  "np_mean xs = (if xs = [] then NaN else fdivn (foldl fadd (Fin 0) xs) (length xs))"

section \<open>Slices\<close>

text \<open>
  \<^verbatim>\<open>xs[i:j]\<close> for non-negative bounds: Python clips both bounds to the length and
  yields the empty list when \<open>j \<le> i\<close>; it never raises.
\<close>

definition py_slice :: "'a list \<Rightarrow> nat \<Rightarrow> nat \<Rightarrow> 'a list" where
  "py_slice xs i j = drop i (take j xs)"

text \<open>
  \<^verbatim>\<open>yhat[i:j] = vals\<close> on a one-dimensional tensor. The tensor keeps its size; torch
  requires \<open>vals\<close> to have as many entries as the (clipped) slice, which holds at every
  call below because the model returns one value per example of the batch.
\<close>

definition tensor_set :: "'a list \<Rightarrow> nat \<Rightarrow> nat \<Rightarrow> 'a list \<Rightarrow> 'a list" where
  "tensor_set ys i j vals = take i ys @ vals @ drop (i + length vals) ys"

section \<open>External collaborators\<close>

text \<open>
  The model, the optimizer, the torch loss modules and \<^verbatim>\<open>scipy.stats.pearsonr\<close> are
  not part of the repository; they are parameters of the embedding. The type \<open>'m\<close> is the
  whole mutable state of model and optimizer (parameters, train/eval mode, optimizer
  moments). An example is a pair \<open>(words, spans)\<close>.
  \<^item> \<open>new_model\<close> is \<^verbatim>\<open>_initialize_trainer_model\<close> followed by the construction of
    the optimizer;
  \<^item> \<open>train_mode\<close>, \<open>eval_mode\<close> are \<^verbatim>\<open>self._model.train()\<close> and \<^verbatim>\<open>self._model.eval()\<close>;
  \<^item> \<open>score\<close> is the model's output for one example;
  \<^item> \<open>opt_step\<close> is \<^verbatim>\<open>optimizer.zero_grad(); curr_loss.backward(); optimizer.step()\<close>
    on one batch;
  \<^item> \<open>smooth_loss\<close>, \<open>l1_loss\<close> are \<^verbatim>\<open>SmoothL1Loss()\<close> and \<^verbatim>\<open>L1Loss()\<close>;
  \<^item> \<open>pearsonr\<close> is the first component of \<^verbatim>\<open>pearsonr(preds, dev_y)\<close>.
\<close>

record ('m, 'w, 's) env =
  new_model :: "'m"
  train_mode :: "'m \<Rightarrow> 'm"
  eval_mode :: "'m \<Rightarrow> 'm"
  score :: "'m \<Rightarrow> 'w \<Rightarrow> 's \<Rightarrow> pyfloat"
  opt_step :: "'m \<Rightarrow> 'w list \<Rightarrow> 's list \<Rightarrow> pyfloat list \<Rightarrow> 'm"
  smooth_loss :: "pyfloat list \<Rightarrow> pyfloat list \<Rightarrow> pyfloat"
  l1_loss :: "pyfloat list \<Rightarrow> pyfloat list \<Rightarrow> pyfloat"
  pearsonr :: "pyfloat list \<Rightarrow> pyfloat list \<Rightarrow> pyfloat"

text \<open>\<^verbatim>\<open>self._model(words, spans).squeeze()\<close>: one prediction per example of the batch.\<close>

definition forward :: "('m, 'w, 's) env \<Rightarrow> 'm \<Rightarrow> 'w list \<Rightarrow> 's list \<Rightarrow> pyfloat list" where
  "forward E m words spans = map (\<lambda>(w, s). score E m w s) (zip words spans)"

section \<open>The trainer object\<close>

text \<open>
  The fields of \<^verbatim>\<open>self\<close> that the loops read. Batch sizes and the epoch count are
  counts, modelled as naturals. \<open>pretrain_x\<close> and \<open>pretrain_actual\<close> may be \<^verbatim>\<open>None\<close>.
\<close>

record 'p trainer =
  epochs :: nat
  train_batch_size :: nat
  predict_batch_size :: nat
  pretraining :: bool
  data_name :: string
  pretrain_x :: "'p option"
  pretrain_actual :: "'p option"

datatype error = ZeroDivisionError | IndexError

section \<open>\<^verbatim>\<open>Trainer._custom_loss\<close>\<close>

definition custom_loss ::
  "('m, 'w, 's) env \<Rightarrow> pyfloat list \<Rightarrow> pyfloat list \<Rightarrow> 'p option \<Rightarrow> 'p option \<Rightarrow> pyfloat" where
  "custom_loss E predicted actual pretrain_x' pretrain_actual' =
     (let actual_torch = actual;
          domain_loss = smooth_loss E predicted actual_torch
      in domain_loss)"

section \<open>The batch loop of \<^verbatim>\<open>Trainer.train\<close>\<close>

text \<open>
  The state of one pass over the training data: the model, the list \<open>batch_losses\<close>, and
  (for stating properties) the list of the bounds \<open>(bidx_i, bidx_j)\<close> at which the data
  was sliced and fed to the model, in order.
\<close>

type_synonym 'm bstate = "'m \<times> pyfloat list \<times> (nat \<times> nat) list"

text \<open>
  The body that the source has twice, once for an interior batch and once for the
  trailing batch: slice, forward pass, loss, record the loss, backward pass and
  optimizer step.
\<close>

definition train_batch ::
  "('m, 'w, 's) env \<Rightarrow> 'p trainer \<Rightarrow> ('w \<times> 's) list \<Rightarrow> pyfloat list \<Rightarrow> 'p option \<Rightarrow> 'p option
     \<Rightarrow> nat \<Rightarrow> nat \<Rightarrow> 'm bstate \<Rightarrow> 'm bstate" where
  "train_batch E self X Y px pa bidx_i bidx_j st =
     (case st of (m, batch_losses, fed) \<Rightarrow>
        let words = map fst (py_slice X bidx_i bidx_j);
            spans = map snd (py_slice X bidx_i bidx_j);
            model_out = forward E m words spans;
            curr_loss = (if pretraining self
                         then custom_loss E model_out (py_slice Y bidx_i bidx_j) px pa
                         else custom_loss E model_out (py_slice Y bidx_i bidx_j)
                                (None :: 'p option) None);
            m' = opt_step E m words spans (py_slice Y bidx_i bidx_j)
        in (m', batch_losses @ [curr_loss], fed @ [(bidx_i, bidx_j)]))"

text \<open>
  \<^verbatim>\<open>while bidx_j < total_obs\<close>, lines 135-181. The trailing batch is processed inside
  the loop body, after the cursor has advanced. The loop does not end when the batch size
  is 0, so the result is an option and \<open>None\<close> stands for a loop that never returns.
\<close>

partial_function (option) train_while ::
  "('m, 'w, 's) env \<Rightarrow> 'p trainer \<Rightarrow> ('w \<times> 's) list \<Rightarrow> pyfloat list \<Rightarrow> 'p option \<Rightarrow> 'p option
     \<Rightarrow> nat \<Rightarrow> nat \<Rightarrow> nat \<Rightarrow> 'm bstate \<Rightarrow> 'm bstate option" where
  "train_while E self X Y px pa total_obs bidx_i bidx_j st =
     (if bidx_j < total_obs then
        let st1 = train_batch E self X Y px pa bidx_i bidx_j st;
            bidx_i' = bidx_j;
            bidx_j' = bidx_i' + train_batch_size self;
            st2 = (if bidx_j' \<ge> total_obs
                   then train_batch E self X Y px pa bidx_i' bidx_j' st1
                   else st1)
        in train_while E self X Y px pa total_obs bidx_i' bidx_j' st2
      else Some st)"


declare train_while.simps [code]

text \<open>
  One pass over the training data, lines 123-186: \<^verbatim>\<open>batch_losses = []\<close>, training
  mode, the cursors, the progress bar whose length \<^verbatim>\<open>total_obs // train_batch_size\<close>
  raises when the batch size is 0, the loop, and the mean of the batch losses.
\<close>

definition train_pass ::
  "('m, 'w, 's) env \<Rightarrow> 'p trainer \<Rightarrow> ('w \<times> 's) list \<Rightarrow> pyfloat list \<Rightarrow> 'p option \<Rightarrow> 'p option
     \<Rightarrow> nat \<Rightarrow> 'm \<Rightarrow> (error + 'm \<times> pyfloat \<times> (nat \<times> nat) list) option" where
  "train_pass E self X Y px pa total_obs m =
     (let batch_losses = [];
          m0 = train_mode E m;
          bidx_i = 0;
          bidx_j = train_batch_size self
      in if train_batch_size self = 0 then Some (Inl ZeroDivisionError)
         else (case train_while E self X Y px pa total_obs bidx_i bidx_j (m0, batch_losses, []) of
                 None \<Rightarrow> None
               | Some (m1, batch_losses', fed) \<Rightarrow> Some (Inr (m1, np_mean batch_losses', fed))))"

section \<open>\<^verbatim>\<open>Trainer.predict\<close> and \<^verbatim>\<open>Trainer.predict_grad\<close>\<close>

text \<open>
  The state of the loop of \<^verbatim>\<open>predict\<close>: the tensor \<open>yhat\<close>, the list \<open>batch_losses\<close> and
  the list of slice bounds used, in order.
\<close>

type_synonym pstate = "pyfloat list \<times> pyfloat list \<times> (nat \<times> nat) list"

definition predict_batch ::
  "('m, 'w, 's) env \<Rightarrow> 'p trainer \<Rightarrow> 'm \<Rightarrow> ('w \<times> 's) list \<Rightarrow> pyfloat list \<Rightarrow> string option
     \<Rightarrow> nat \<Rightarrow> nat \<Rightarrow> pstate \<Rightarrow> pstate" where
  "predict_batch E self m data_x data_y loss bidx_i bidx_j st =
     (case st of (yhat, batch_losses, fed) \<Rightarrow>
        let words = map fst (py_slice data_x bidx_i bidx_j);
            spans = map snd (py_slice data_x bidx_i bidx_j);
            model_out = forward E m words spans;
            yhat' = tensor_set yhat bidx_i bidx_j model_out;
            curr_loss =
              (if pretraining self
               then custom_loss E model_out (py_slice data_y bidx_i bidx_j)
                      (pretrain_x self) (pretrain_actual self)
               else if loss = Some ''l1''
               then (let actual_torch = py_slice data_y bidx_i bidx_j
                     in l1_loss E model_out actual_torch)
               else custom_loss E model_out (py_slice data_y bidx_i bidx_j)
                      (None :: 'p option) None)
        in (yhat', batch_losses @ [curr_loss], fed @ [(bidx_i, bidx_j)]))"

text \<open>
  Lines 289-326. The first batch ends at \<open>predict_batch_size\<close>; the cursor then advances
  by \<open>train_batch_size\<close>, as the source has it.
\<close>

partial_function (option) predict_while ::
  "('m, 'w, 's) env \<Rightarrow> 'p trainer \<Rightarrow> 'm \<Rightarrow> ('w \<times> 's) list \<Rightarrow> pyfloat list \<Rightarrow> string option
     \<Rightarrow> nat \<Rightarrow> nat \<Rightarrow> nat \<Rightarrow> pstate \<Rightarrow> pstate option" where
  "predict_while E self m data_x data_y loss total_obs bidx_i bidx_j st =
     (if bidx_j < total_obs then
        let st1 = predict_batch E self m data_x data_y loss bidx_i bidx_j st;
            bidx_i' = bidx_j;
            bidx_j' = bidx_i' + train_batch_size self;
            st2 = (if bidx_j' \<ge> total_obs
                   then predict_batch E self m data_x data_y loss bidx_i' bidx_j' st1
                   else st1)
        in predict_while E self m data_x data_y loss total_obs bidx_i' bidx_j' st2
      else Some st)"

declare predict_while.simps [code]

text \<open>
  \<^verbatim>\<open>predict(data_x, data_y, loss)\<close> returns \<^verbatim>\<open>(np.mean(batch_losses), yhat)\<close>; the model
  it leaves in evaluation mode is returned as well.
\<close>

definition predict ::
  "('m, 'w, 's) env \<Rightarrow> 'p trainer \<Rightarrow> 'm \<Rightarrow> ('w \<times> 's) list \<Rightarrow> pyfloat list \<Rightarrow> string option
     \<Rightarrow> ('m \<times> pyfloat \<times> pyfloat list) option" where
  "predict E self m data_x data_y loss =
     (let m' = eval_mode E m;
          batch_losses = [];
          bidx_i = 0;
          bidx_j = predict_batch_size self;
          total_obs = length data_x;
          yhat = replicate total_obs (Fin 0)
      in case predict_while E self m' data_x data_y loss total_obs bidx_i bidx_j
                (yhat, batch_losses, []) of
           None \<Rightarrow> None
         | Some (yhat', batch_losses', fed) \<Rightarrow> Some (m', np_mean batch_losses', yhat'))"

text \<open>The loop of \<^verbatim>\<open>predict_grad\<close>, lines 254-271: the tensor and the slice bounds used.\<close>

type_synonym gstate = "pyfloat list \<times> (nat \<times> nat) list"

definition predict_grad_batch ::
  "('m, 'w, 's) env \<Rightarrow> 'm \<Rightarrow> ('w \<times> 's) list \<Rightarrow> nat \<Rightarrow> nat \<Rightarrow> gstate \<Rightarrow> gstate" where
  "predict_grad_batch E m data_x bidx_i bidx_j st =
     (case st of (yhat, fed) \<Rightarrow>
        let words = map fst (py_slice data_x bidx_i bidx_j);
            spans = map snd (py_slice data_x bidx_i bidx_j);
            model_out = forward E m words spans
        in (tensor_set yhat bidx_i bidx_j model_out, fed @ [(bidx_i, bidx_j)]))"

partial_function (option) predict_grad_while ::
  "('m, 'w, 's) env \<Rightarrow> 'p trainer \<Rightarrow> 'm \<Rightarrow> ('w \<times> 's) list
     \<Rightarrow> nat \<Rightarrow> nat \<Rightarrow> nat \<Rightarrow> gstate \<Rightarrow> gstate option" where
  "predict_grad_while E self m data_x total_obs bidx_i bidx_j st =
     (if bidx_j < total_obs then
        let st1 = predict_grad_batch E m data_x bidx_i bidx_j st;
            bidx_i' = bidx_j;
            bidx_j' = bidx_i' + train_batch_size self;
            st2 = (if bidx_j' \<ge> total_obs
                   then predict_grad_batch E m data_x bidx_i' bidx_j' st1
                   else st1)
        in predict_grad_while E self m data_x total_obs bidx_i' bidx_j' st2
      else Some st)"

declare predict_grad_while.simps [code]

definition predict_grad ::
  "('m, 'w, 's) env \<Rightarrow> 'p trainer \<Rightarrow> 'm \<Rightarrow> ('w \<times> 's) list \<Rightarrow> pyfloat list option" where
  "predict_grad E self m data_x =
     (let bidx_i = 0;
          bidx_j = predict_batch_size self;
          total_obs = length data_x;
          yhat = replicate total_obs (Fin 0)
      in case predict_grad_while E self m data_x total_obs bidx_i bidx_j (yhat, []) of
           None \<Rightarrow> None
         | Some (yhat', fed) \<Rightarrow> Some yhat')"

section \<open>The epoch loop of \<^verbatim>\<open>Trainer.train\<close>\<close>

text \<open>
  The local state of \<^verbatim>\<open>train\<close>: the model, the best values, the three histories that
  \<^verbatim>\<open>train\<close> returns and the bad-epoch counter. Two fields record what happens:
  \<open>ckpt_writes\<close> lists the epochs at which \<^verbatim>\<open>torch.save\<close> wrote the file
  \<^verbatim>\<open>best_model_file\<close>, in order, and \<open>epochs_run\<close> counts the epochs whose batch pass
  has been run.
\<close>

record 'm train_state =
  model :: "'m"
  best_loss :: pyfloat
  best_r :: pyfloat
  train_losses :: "pyfloat list"
  dev_losses :: "pyfloat list"
  dev_rs :: "pyfloat list"
  bad_count :: nat
  ckpt_writes :: "nat list"
  epochs_run :: nat

text \<open>How an epoch, and the loop, ends: by reaching its end or by \<^verbatim>\<open>break\<close>.\<close>

datatype flow = Normal | Break

text \<open>
  Lines 190-200, the branch \<^verbatim>\<open>data_name == "megaverid"\<close>: checkpoint on a strictly
  smaller loss, stop when the loss has converged, else append the loss.
  \<^verbatim>\<open>train_losses[-1]\<close> raises on an empty list.
\<close>

definition convergence_update ::
  "nat \<Rightarrow> pyfloat \<Rightarrow> 'm train_state \<Rightarrow> error + flow \<times> 'm train_state" where
  "convergence_update epoch curr_train_loss s =
     (let s1 = (if flt curr_train_loss (best_loss s)
                then s\<lparr>ckpt_writes := ckpt_writes s @ [epoch], best_loss := curr_train_loss\<rparr>
                else s)
      in if epoch \<noteq> 0 then
           (if train_losses s1 = [] then Inl IndexError
            else if flt (fabs (fsub curr_train_loss (last (train_losses s1)))) (Fin (1 / 10000))
            then Inr (Break, s1)
            else Inr (Normal, s1\<lparr>train_losses := train_losses s1 @ [curr_train_loss]\<rparr>))
         else Inr (Normal, s1\<lparr>train_losses := train_losses s1 @ [curr_train_loss]\<rparr>))"

text \<open>
  Lines 215-238, the other branch, after the dev set has been scored: checkpoint on a
  strictly larger correlation, count the epochs whose correlation fell below that of the
  previous epoch, stop at three, else append to the histories.
\<close>

definition validation_update ::
  "nat \<Rightarrow> pyfloat \<Rightarrow> pyfloat \<Rightarrow> pyfloat \<Rightarrow> 'm train_state \<Rightarrow> error + flow \<times> 'm train_state" where
  "validation_update epoch curr_train_loss curr_dev_loss curr_dev_r s =
     (let s1 = (if fgt curr_dev_r (best_r s)
                then s\<lparr>ckpt_writes := ckpt_writes s @ [epoch], best_r := curr_dev_r\<rparr>
                else s)
      in if epoch \<noteq> 0 \<and> dev_rs s1 = [] then Inl IndexError
         else
           let s2 = (if epoch \<noteq> 0
                     then (if flt curr_dev_r (last (dev_rs s1))
                           then s1\<lparr>bad_count := bad_count s1 + 1\<rparr>
                           else s1\<lparr>bad_count := 0\<rparr>)
                     else s1)
           in if bad_count s2 \<ge> 3 then Inr (Break, s2)
              else Inr (Normal, s2\<lparr>dev_rs := dev_rs s2 @ [curr_dev_r],
                                    dev_losses := dev_losses s2 @ [curr_dev_loss],
                                    train_losses := train_losses s2 @ [curr_train_loss]\<rparr>))"

text \<open>
  The state once the batch pass of an epoch (and, with a dev set, the scoring of the dev
  set) is over: the model as they leave it, and one more epoch run.
\<close>

definition after_pass :: "'m train_state \<Rightarrow> 'm \<Rightarrow> 'm train_state" where
  "after_pass s m = s\<lparr>model := m, epochs_run := epochs_run s + 1\<rparr>"

text \<open>The body of \<^verbatim>\<open>for epoch in range(self.epochs)\<close>, lines 121-238.\<close>

definition epoch_body ::
  "('m, 'w, 's) env \<Rightarrow> 'p trainer \<Rightarrow> ('w \<times> 's) list \<Rightarrow> pyfloat list
     \<Rightarrow> ('w \<times> 's) list \<times> pyfloat list \<Rightarrow> 'p option \<Rightarrow> 'p option
     \<Rightarrow> nat \<Rightarrow> 'm train_state \<Rightarrow> (error + flow \<times> 'm train_state) option" where
  "epoch_body E self X Y dev px pa epoch s =
     (case train_pass E self X Y px pa (length X) (model s) of
        None \<Rightarrow> None
      | Some (Inl e) \<Rightarrow> Some (Inl e)
      | Some (Inr (m1, curr_train_loss, fed)) \<Rightarrow>
          if data_name self = ''megaverid''
          then Some (convergence_update epoch curr_train_loss (after_pass s m1))
          else (case dev of (dev_x, dev_y) \<Rightarrow>
                  (case predict E self m1 dev_x dev_y None of
                     None \<Rightarrow> None
                   | Some (m2, curr_dev_loss, curr_dev_preds) \<Rightarrow>
                       let curr_dev_r = pearsonr E curr_dev_preds dev_y
                       in Some (validation_update epoch curr_train_loss curr_dev_loss
                                  curr_dev_r (after_pass s m2)))))"

text \<open>The loop over the epochs; \<^verbatim>\<open>break\<close> and an exception leave it at once.\<close>

fun for_epochs ::
  "('m, 'w, 's) env \<Rightarrow> 'p trainer \<Rightarrow> ('w \<times> 's) list \<Rightarrow> pyfloat list
     \<Rightarrow> ('w \<times> 's) list \<times> pyfloat list \<Rightarrow> 'p option \<Rightarrow> 'p option
     \<Rightarrow> nat list \<Rightarrow> 'm train_state \<Rightarrow> (error + flow \<times> 'm train_state) option" where
  "for_epochs E self X Y dev px pa [] s = Some (Inr (Normal, s))"
| "for_epochs E self X Y dev px pa (epoch # rest) s =
     (case epoch_body E self X Y dev px pa epoch s of
        None \<Rightarrow> None
      | Some (Inl e) \<Rightarrow> Some (Inl e)
      | Some (Inr (Break, s')) \<Rightarrow> Some (Inr (Break, s'))
      | Some (Inr (Normal, s')) \<Rightarrow> for_epochs E self X Y dev px pa rest s')"

text \<open>Lines 99-100: \<^verbatim>\<open>train\<close> stores its pretraining arguments on \<^verbatim>\<open>self\<close>.\<close>

definition with_pretrain :: "'p trainer \<Rightarrow> 'p option \<Rightarrow> 'p option \<Rightarrow> 'p trainer" where
  "with_pretrain self px pa = self\<lparr>pretrain_x := px, pretrain_actual := pa\<rparr>"

text \<open>The state at line 119, before the first epoch.\<close>

definition init_state :: "('m, 'w, 's) env \<Rightarrow> 'm train_state" where
  "init_state E =
     \<lparr>model = new_model E, best_loss = PInf, best_r = NInf, train_losses = [],
      dev_losses = [], dev_rs = [], bad_count = 0, ckpt_writes = [], epochs_run = 0\<rparr>"

text \<open>
  \<^verbatim>\<open>train(train_X, train_Y, dev, pretrain_x, pretrain_actual)\<close>. The Python function
  returns the fields \<open>train_losses\<close>, \<open>dev_losses\<close> and \<open>dev_rs\<close> of the final state; the
  embedding returns the whole state and how the loop ended. \<open>None\<close> is a call that never
  returns, \<open>Inl\<close> one that raises.
\<close>

definition train ::
  "('m, 'w, 's) env \<Rightarrow> 'p trainer \<Rightarrow> ('w \<times> 's) list \<Rightarrow> pyfloat list
     \<Rightarrow> ('w \<times> 's) list \<times> pyfloat list \<Rightarrow> 'p option \<Rightarrow> 'p option
     \<Rightarrow> (error + flow \<times> 'm train_state) option" where
  "train E self train_X train_Y dev px pa =
     (let self' = with_pretrain self px pa
      in for_epochs E self' train_X train_Y dev px pa [0..<epochs self'] (init_state E))"


section \<open>Notions used to state the properties\<close>

text \<open>The examples fed to the model by the batches with the bounds \<open>fed\<close>, in order.\<close>

definition fed_slices :: "'a list \<Rightarrow> (nat \<times> nat) list \<Rightarrow> 'a list" where
  "fed_slices X fed = concat (map (\<lambda>(i, j). py_slice X i j) fed)"

text \<open>
  The epochs \<open>es\<close> of a call of \<^verbatim>\<open>train\<close>, run from the initial state. With
  \<open>es = [0..<e]\<close> and the result \<open>Some (Inr (Normal, s))\<close> it says that the epochs before
  \<open>e\<close> have run without stopping the loop and that epoch \<open>e\<close> starts in the state \<open>s\<close>.
\<close>

definition train_loop ::
  "('m, 'w, 's) env \<Rightarrow> 'p trainer \<Rightarrow> ('w \<times> 's) list \<Rightarrow> pyfloat list
     \<Rightarrow> ('w \<times> 's) list \<times> pyfloat list \<Rightarrow> 'p option \<Rightarrow> 'p option
     \<Rightarrow> nat list \<Rightarrow> (error + flow \<times> 'm train_state) option" where
  "train_loop E self X Y dev px pa es =
     for_epochs E (with_pretrain self px pa) X Y dev px pa es (init_state E)"



subsection \<open>A small instance\<close>

text \<open>
  Stand-ins for the collaborators, for concrete runs. The model state counts the
  optimizer steps taken and predicts that count for every example; both losses are
  constant; the correlation reported for predictions that start with \<open>x\<close> is
  \<open>0.6 - x / 20\<close>, so that it falls from epoch to epoch as in the scenario
  \<open>[0.5, 0.4, 0.3, 0.2]\<close> of the specification.
\<close>

definition demo_env :: "(nat, nat, nat) env" where
  "demo_env =
     \<lparr>new_model = 0, train_mode = (\<lambda>m. m), eval_mode = (\<lambda>m. m),
      score = (\<lambda>m w s. Fin (real m)),
      opt_step = (\<lambda>m words spans actual. Suc m),
      smooth_loss = (\<lambda>predicted actual. Fin 1),
      l1_loss = (\<lambda>predicted actual. Fin 2),
      pearsonr = (\<lambda>preds ys. case preds of Fin x # _ \<Rightarrow> Fin (6 / 10 - x / 20) | _ \<Rightarrow> NaN)\<rparr>"

definition demo_trainer :: "nat \<Rightarrow> nat \<Rightarrow> nat \<Rightarrow> string \<Rightarrow> unit trainer" where
  "demo_trainer n b p name =
     \<lparr>epochs = n, train_batch_size = b, predict_batch_size = p, pretraining = False,
      data_name = name, pretrain_x = None, pretrain_actual = None\<rparr>"

definition demo_X :: "(nat \<times> nat) list" where
  "demo_X = [(1, 1), (2, 2), (3, 3), (4, 4), (5, 5), (6, 6), (7, 7)]"

definition demo_Y :: "pyfloat list" where
  "demo_Y = [Fin 1, Fin 2, Fin 3, Fin 4, Fin 5, Fin 6, Fin 7]"

text \<open>
  Two trainers on two training examples with batch size 1, so that every epoch takes two
  optimizer steps: \<open>demo_val\<close> scores a dev set of two examples after every epoch and
  sees the correlations 0.5, 0.4, 0.3, 0.2; \<open>demo_conv\<close> has the data name
  \<^verbatim>\<open>megaverid\<close> and sees the train loss 1 in every epoch.
\<close>

definition demo_val :: "unit trainer" where
  "demo_val = demo_trainer 5 1 1 ''sts''"

definition demo_conv :: "unit trainer" where
  "demo_conv = demo_trainer 3 1 1 ''megaverid''"

definition demo_dev :: "(nat \<times> nat) list \<times> pyfloat list" where
  "demo_dev = (take 2 demo_X, take 2 demo_Y)"

text \<open>The states of \<open>demo_val\<close> after one, three and four epochs.\<close>

definition demo_val_1 :: "nat train_state" where
  "demo_val_1 =
     \<lparr>model = 2, best_loss = PInf, best_r = Fin (1 / 2),
      train_losses = [Fin 1], dev_losses = [Fin 1], dev_rs = [Fin (1 / 2)],
      bad_count = 0, ckpt_writes = [0], epochs_run = 1\<rparr>"

definition demo_val_3 :: "nat train_state" where
  "demo_val_3 =
     \<lparr>model = 6, best_loss = PInf, best_r = Fin (1 / 2),
      train_losses = [Fin 1, Fin 1, Fin 1], dev_losses = [Fin 1, Fin 1, Fin 1],
      dev_rs = [Fin (1 / 2), Fin (2 / 5), Fin (3 / 10)],
      bad_count = 2, ckpt_writes = [0], epochs_run = 3\<rparr>"

definition demo_val_4 :: "nat train_state" where
  "demo_val_4 =
     \<lparr>model = 8, best_loss = PInf, best_r = Fin (1 / 2),
      train_losses = [Fin 1, Fin 1, Fin 1], dev_losses = [Fin 1, Fin 1, Fin 1],
      dev_rs = [Fin (1 / 2), Fin (2 / 5), Fin (3 / 10)],
      bad_count = 3, ckpt_writes = [0], epochs_run = 4\<rparr>"

text \<open>The states of \<open>demo_conv\<close> after one and two epochs.\<close>

definition demo_conv_1 :: "nat train_state" where
  "demo_conv_1 =
     \<lparr>model = 2, best_loss = Fin 1, best_r = NInf,
      train_losses = [Fin 1], dev_losses = [], dev_rs = [],
      bad_count = 0, ckpt_writes = [0], epochs_run = 1\<rparr>"

definition demo_conv_2 :: "nat train_state" where
  "demo_conv_2 =
     \<lparr>model = 4, best_loss = Fin 1, best_r = NInf,
      train_losses = [Fin 1], dev_losses = [], dev_rs = [],
      bad_count = 0, ckpt_writes = [0], epochs_run = 2\<rparr>"


section \<open>Slices and the batch loops\<close>

lemma fed_slices_snoc: "fed_slices X (fed @ [(i, j)]) = fed_slices X fed @ py_slice X i j"
  by (simp add: fed_slices_def)

lemma take_py_slice: "i \<le> j \<Longrightarrow> take i X @ py_slice X i j = take j X"
proof -
  assume "i \<le> j"
  then have "take i (take j X) = take i X" by (simp add: min_def)
  then have "take i X @ drop i (take j X) = take j X"
    by (metis append_take_drop_id)
  then show ?thesis by (simp add: py_slice_def)
qed

lemma length_py_slice: "length (py_slice xs i j) = min j (length xs) - i"
  by (simp add: py_slice_def min.commute)

lemma forward_unzip:
  "forward E m (map fst xs) (map snd xs) = map (\<lambda>(w, s). score E m w s) xs"
  by (simp add: forward_def zip_map_fst_snd)

lemma train_while_stop:
  "\<not> bidx_j < total_obs \<Longrightarrow> train_while E self X Y px pa total_obs bidx_i bidx_j st = Some st"
  by (subst train_while.simps) simp

text \<open>With a positive batch size the training loop returns.\<close>

lemma train_while_returns:
  assumes B: "0 < train_batch_size self"
  shows "\<exists>st'. train_while E self X Y px pa total_obs bidx_i bidx_j st = Some st'"
proof (induction "total_obs - bidx_j" arbitrary: bidx_i bidx_j st rule: less_induct)
  case less
  show ?case
  proof (cases "bidx_j < total_obs")
    case False
    then show ?thesis by (intro exI[of _ st]) (rule train_while_stop)
  next
    case True
    from True B have "total_obs - (bidx_j + train_batch_size self) < total_obs - bidx_j"
      by arith
    from less[OF this] show ?thesis
      using True by (subst train_while.simps) (simp add: Let_def)
  qed
qed

text \<open>
  Once the loop is entered (\<open>bidx_j < total_obs\<close>) with the examples before \<open>bidx_i\<close>
  fed, it returns having fed every example exactly once, in order.
\<close>

lemma train_while_covers:
  assumes B: "0 < train_batch_size self" and tot: "total_obs = length X"
  shows "bidx_j < total_obs \<Longrightarrow> bidx_i \<le> bidx_j \<Longrightarrow> fed_slices X fed = take bidx_i X \<Longrightarrow>
     \<exists>m' l' fed'. train_while E self X Y px pa total_obs bidx_i bidx_j (m, l, fed) = Some (m', l', fed')
        \<and> fed_slices X fed' = X"
proof (induction "total_obs - bidx_j" arbitrary: bidx_i bidx_j m l fed rule: less_induct)
  case less
  obtain m1 l1 where st1:
    "train_batch E self X Y px pa bidx_i bidx_j (m, l, fed) = (m1, l1, fed @ [(bidx_i, bidx_j)])"
    by (simp add: train_batch_def Let_def)
  have cov1: "fed_slices X (fed @ [(bidx_i, bidx_j)]) = take bidx_j X"
    using less.prems by (simp add: fed_slices_snoc take_py_slice)
  let ?j = "bidx_j + train_batch_size self"
  show ?case
  proof (cases "?j < total_obs")
    case True
    have dec: "total_obs - ?j < total_obs - bidx_j" using True B by arith
    have "bidx_j \<le> ?j" by simp
    from less.hyps[OF dec True this cov1, of m1 l1]
    show ?thesis using less.prems(1) True st1
      by (subst train_while.simps) (simp add: Let_def)
  next
    case False
    obtain m2 l2 where st2:
      "train_batch E self X Y px pa bidx_j ?j (m1, l1, fed @ [(bidx_i, bidx_j)])
         = (m2, l2, fed @ [(bidx_i, bidx_j), (bidx_j, ?j)])"
      by (simp add: train_batch_def Let_def)
    have "fed_slices X (fed @ [(bidx_i, bidx_j), (bidx_j, ?j)]) = take ?j X"
      using cov1 fed_slices_snoc[of X "fed @ [(bidx_i, bidx_j)]" bidx_j ?j]
      by (simp add: take_py_slice)
    also have "\<dots> = X" using False tot by simp
    finally have cov2: "fed_slices X (fed @ [(bidx_i, bidx_j), (bidx_j, ?j)]) = X" .
    show ?thesis using less.prems(1) False st1 st2 cov2
      by (subst train_while.simps) (simp add: Let_def train_while_stop)
  qed
qed

lemma train_pass_returns:
  assumes "0 < train_batch_size self"
  shows "\<exists>m1 l fed. train_pass E self X Y px pa total_obs m = Some (Inr (m1, l, fed))"
proof -
  obtain st' where "train_while E self X Y px pa total_obs 0 (train_batch_size self)
      (train_mode E m, [], []) = Some st'"
    using train_while_returns[OF assms] by blast
  then show ?thesis using assms by (cases st') (simp add: train_pass_def Let_def)
qed

text \<open>
  A training set no longer than one batch: the loop body never runs, no example is fed
  and the mean of the empty loss list is NaN.
\<close>

lemma train_pass_small:
  assumes "0 < train_batch_size self" "total_obs \<le> train_batch_size self"
  shows "train_pass E self X Y px pa total_obs m = Some (Inr (train_mode E m, NaN, []))"
  using assms by (simp add: train_pass_def Let_def train_while_stop np_mean_def)

text \<open>A training set longer than one batch: every example is fed exactly once, in order.\<close>

lemma train_pass_covers:
  assumes "0 < train_batch_size self" "train_batch_size self < length X"
  shows "\<exists>m1 l fed. train_pass E self X Y px pa (length X) m = Some (Inr (m1, l, fed))
           \<and> fed_slices X fed = X"
proof -
  from train_while_covers[OF assms(1) refl assms(2), of 0 "[]" E Y px pa "train_mode E m" "[]"]
  show ?thesis using assms(1) by (auto simp: train_pass_def Let_def fed_slices_def)
qed

lemma predict_while_stop:
  "\<not> bidx_j < total_obs \<Longrightarrow>
     predict_while E self m data_x data_y loss total_obs bidx_i bidx_j st = Some st"
  by (subst predict_while.simps) simp

lemma predict_while_returns:
  assumes B: "0 < train_batch_size self"
  shows "\<exists>st'. predict_while E self m data_x data_y loss total_obs bidx_i bidx_j st = Some st'"
proof (induction "total_obs - bidx_j" arbitrary: bidx_i bidx_j st rule: less_induct)
  case less
  show ?case
  proof (cases "bidx_j < total_obs")
    case False
    then show ?thesis by (intro exI[of _ st]) (rule predict_while_stop)
  next
    case True
    from True B have "total_obs - (bidx_j + train_batch_size self) < total_obs - bidx_j"
      by arith
    from less[OF this] show ?thesis
      using True by (subst predict_while.simps) (simp add: Let_def)
  qed
qed

lemma tensor_set_step:
  assumes "i \<le> j" "i \<le> length X"
  shows "tensor_set (map f (take i X) @ replicate (length X - i) z) i j (map f (py_slice X i j))
           = map f (take j X) @ replicate (length X - j) z"
proof -
  let ?ys = "map f (take i X) @ replicate (length X - i) z"
  have len: "length (map f (take i X)) = i" using assms by simp
  have t: "take i ?ys = map f (take i X)" using len by simp
  have "i + length (map f (py_slice X i j)) = min j (length X)"
    using assms by (simp add: length_py_slice)
  then have d: "drop (i + length (map f (py_slice X i j))) ?ys = replicate (length X - j) z"
    using assms len by (auto simp: min_def)
  have "map f (take i X) @ map f (py_slice X i j) = map f (take j X)"
    using take_py_slice[OF assms(1), of X] by (metis map_append)
  then show ?thesis
    unfolding tensor_set_def t d by simp
qed

lemma predict_while_covers:
  assumes B: "0 < train_batch_size self" and tot: "total_obs = length X"
  shows "bidx_j < total_obs \<Longrightarrow> bidx_i \<le> bidx_j \<Longrightarrow>
     yhat = map (\<lambda>(w, s). score E m w s) (take bidx_i X) @ replicate (total_obs - bidx_i) (Fin 0) \<Longrightarrow>
     \<exists>l' fed'. predict_while E self m X Y loss total_obs bidx_i bidx_j (yhat, l, fed)
        = Some (map (\<lambda>(w, s). score E m w s) X, l', fed')"
proof (induction "total_obs - bidx_j" arbitrary: bidx_i bidx_j yhat l fed rule: less_induct)
  case less
  let ?f = "\<lambda>(w, s). score E m w s"
  let ?j = "bidx_j + train_batch_size self"
  have i_le: "bidx_i \<le> length X" using less.prems tot by simp
  have j_le: "bidx_j \<le> length X" using less.prems tot by simp
  obtain l1 where st1: "predict_batch E self m X Y loss bidx_i bidx_j (yhat, l, fed)
      = (map ?f (take bidx_j X) @ replicate (total_obs - bidx_j) (Fin 0), l1, fed @ [(bidx_i, bidx_j)])"
    using tensor_set_step[OF less.prems(2) i_le, of ?f "Fin 0"] less.prems(3) tot
    by (simp add: predict_batch_def Let_def forward_unzip)
  show ?case
  proof (cases "?j < total_obs")
    case True
    have dec: "total_obs - ?j < total_obs - bidx_j" using True B by arith
    have "\<exists>l' fed'. predict_while E self m X Y loss total_obs bidx_j ?j
        (map ?f (take bidx_j X) @ replicate (total_obs - bidx_j) (Fin 0), l1, fed @ [(bidx_i, bidx_j)])
          = Some (map ?f X, l', fed')"
      by (rule less.hyps[OF dec True]) simp_all
    then show ?thesis using less.prems(1) True st1
      by (subst predict_while.simps) (simp add: Let_def)
  next
    case False
    obtain l2 where st2: "predict_batch E self m X Y loss bidx_j ?j
        (map ?f (take bidx_j X) @ replicate (total_obs - bidx_j) (Fin 0), l1, fed @ [(bidx_i, bidx_j)])
      = (map ?f X, l2, fed @ [(bidx_i, bidx_j), (bidx_j, ?j)])"
      using tensor_set_step[OF _ j_le, of ?j ?f "Fin 0"] False tot
      by (simp add: predict_batch_def Let_def forward_unzip)
    show ?thesis using less.prems(1) False st1 st2
      by (subst predict_while.simps) (simp add: Let_def predict_while_stop)
  qed
qed

text \<open>
  A data set longer than \<open>predict_batch_size\<close>: \<^verbatim>\<open>predict\<close> returns the evaluation-mode
  model's prediction for every example, in input order.
\<close>

lemma predict_covers:
  assumes "0 < train_batch_size self" "predict_batch_size self < length data_x"
  shows "\<exists>l. predict E self m data_x data_y loss
           = Some (eval_mode E m, l, map (\<lambda>(w, s). score E (eval_mode E m) w s) data_x)"
proof -
  from predict_while_covers[OF assms(1) refl assms(2), of 0 _ E "eval_mode E m" data_y loss "[]" "[]"]
  show ?thesis by (auto simp: predict_def Let_def)
qed

text \<open>
  A data set no longer than \<open>predict_batch_size\<close>: the loop body never runs and
  \<^verbatim>\<open>predict\<close> returns the zero tensor and a NaN loss.
\<close>

lemma predict_small:
  assumes "length data_x \<le> predict_batch_size self"
  shows "predict E self m data_x data_y loss
           = Some (eval_mode E m, NaN, replicate (length data_x) (Fin 0))"
  using assms by (simp add: predict_def Let_def predict_while_stop np_mean_def)

lemma predict_returns:
  assumes "0 < train_batch_size self"
  shows "\<exists>l yhat. predict E self m data_x data_y loss = Some (eval_mode E m, l, yhat)"
proof -
  obtain st' where "predict_while E self (eval_mode E m) data_x data_y loss (length data_x) 0
      (predict_batch_size self) (replicate (length data_x) (Fin 0), [], []) = Some st'"
    using predict_while_returns[OF assms, of E "eval_mode E m" data_x data_y loss "length data_x" 0]
    by (rule exE)
  then show ?thesis by (cases st') (simp add: predict_def Let_def)
qed

text \<open>With a positive training batch size \<^verbatim>\<open>predict\<close> returns a vector of \<open>total\<close> entries.\<close>

lemma predict_length:
  assumes "0 < train_batch_size self"
  shows "\<exists>l yhat. predict E self m data_x data_y loss = Some (eval_mode E m, l, yhat)
           \<and> length yhat = length data_x"
proof (cases "predict_batch_size self < length data_x")
  case True
  from predict_covers[OF assms True, of E m data_y loss] show ?thesis by auto
next
  case False
  then show ?thesis by (simp add: predict_small)
qed

section \<open>The epoch loop\<close>

lemma for_epochs_append:
  "for_epochs E self X Y dev px pa (xs @ ys) s =
     (case for_epochs E self X Y dev px pa xs s of
        Some (Inr (Normal, s')) \<Rightarrow> for_epochs E self X Y dev px pa ys s'
      | r \<Rightarrow> r)"
  by (induction xs arbitrary: s)
     (auto split: option.splits sum.splits flow.splits prod.splits)

lemma epoch_body_megaverid:
  assumes "data_name self = ''megaverid''"
    and "train_pass E self X Y px pa (length X) (model s) = Some (Inr (m1, l, fed))"
  shows "epoch_body E self X Y dev px pa epoch s
           = Some (convergence_update epoch l (after_pass s m1))"
  using assms by (simp add: epoch_body_def Let_def)

lemma epoch_body_validation:
  assumes "data_name self \<noteq> ''megaverid''"
    and "train_pass E self X Y px pa (length X) (model s) = Some (Inr (m1, l, fed))"
    and "predict E self m1 (fst dev) (snd dev) None = Some (m2, dl, preds)"
  shows "epoch_body E self X Y dev px pa epoch s
           = Some (validation_update epoch l dl (pearsonr E preds (snd dev))
                     (after_pass s m2))"
  using assms by (cases dev) (simp add: epoch_body_def Let_def)

lemma epoch_body_cases:
  assumes "epoch_body E self X Y dev px pa epoch s = Some (Inr (fl, s'))"
  obtains (conv) m1 l fed where "data_name self = ''megaverid''"
      "train_pass E self X Y px pa (length X) (model s) = Some (Inr (m1, l, fed))"
      "convergence_update epoch l (after_pass s m1) = Inr (fl, s')"
  | (val) m1 l fed m2 dl preds where "data_name self \<noteq> ''megaverid''"
      "train_pass E self X Y px pa (length X) (model s) = Some (Inr (m1, l, fed))"
      "predict E self m1 (fst dev) (snd dev) None = Some (m2, dl, preds)"
      "validation_update epoch l dl (pearsonr E preds (snd dev))
         (after_pass s m2) = Inr (fl, s')"
  using assms
  by (auto simp: epoch_body_def Let_def split: option.splits sum.splits prod.splits if_splits)

lemma convergence_update_Inr:
  assumes "convergence_update epoch l s = Inr (fl, s')"
  shows "epochs_run s' = epochs_run s"
    and "bad_count s' = bad_count s"
    and "dev_rs s' = dev_rs s"
    and "dev_losses s' = dev_losses s"
    and "ckpt_writes s' = (if flt l (best_loss s) then ckpt_writes s @ [epoch] else ckpt_writes s)"
    and "best_loss s' = (if flt l (best_loss s) then l else best_loss s)"
    and "train_losses s' = (if fl = Break then train_losses s else train_losses s @ [l])"
    and "fl = Break \<longleftrightarrow> epoch \<noteq> 0 \<and> flt (fabs (fsub l (last (train_losses s)))) (Fin (1 / 10000))"
  using assms by (auto simp: convergence_update_def Let_def split: if_splits)

lemma convergence_update_returns:
  assumes "epoch \<noteq> 0 \<Longrightarrow> train_losses s \<noteq> []"
  shows "\<exists>fl s'. convergence_update epoch l s = Inr (fl, s')"
  using assms by (auto simp: convergence_update_def Let_def)

lemma validation_update_Inr:
  assumes "validation_update epoch l dl r s = Inr (fl, s')"
  shows "epochs_run s' = epochs_run s"
    and "ckpt_writes s' = (if fgt r (best_r s) then ckpt_writes s @ [epoch] else ckpt_writes s)"
    and "best_r s' = (if fgt r (best_r s) then r else best_r s)"
    and "bad_count s' = (if epoch \<noteq> 0 then (if flt r (last (dev_rs s)) then bad_count s + 1 else 0)
                         else bad_count s)"
    and "fl = Break \<longleftrightarrow> 3 \<le> bad_count s'"
    and "train_losses s' = (if fl = Break then train_losses s else train_losses s @ [l])"
    and "dev_losses s' = (if fl = Break then dev_losses s else dev_losses s @ [dl])"
    and "dev_rs s' = (if fl = Break then dev_rs s else dev_rs s @ [r])"
  using assms by (auto simp: validation_update_def Let_def split: if_splits)

lemma validation_update_returns:
  assumes "epoch \<noteq> 0 \<Longrightarrow> dev_rs s \<noteq> []"
  shows "\<exists>fl s'. validation_update epoch l dl r s = Inr (fl, s')"
  using assms by (auto simp: validation_update_def Let_def)

lemma after_pass_simps:
  "epochs_run (after_pass s m) = epochs_run s + 1"
  "model (after_pass s m) = m"
  "train_losses (after_pass s m) = train_losses s"
  "dev_losses (after_pass s m) = dev_losses s"
  "dev_rs (after_pass s m) = dev_rs s"
  "bad_count (after_pass s m) = bad_count s"
  "ckpt_writes (after_pass s m) = ckpt_writes s"
  "best_loss (after_pass s m) = best_loss s"
  "best_r (after_pass s m) = best_r s"
  by (simp_all add: after_pass_def)

lemma with_pretrain_simps:
  "train_batch_size (with_pretrain self px pa) = train_batch_size self"
  "predict_batch_size (with_pretrain self px pa) = predict_batch_size self"
  "data_name (with_pretrain self px pa) = data_name self"
  "epochs (with_pretrain self px pa) = epochs self"
  by (simp_all add: with_pretrain_def)

lemma train_eq_train_loop:
  "train E self X Y dev px pa = train_loop E self X Y dev px pa [0..<epochs self]"
  by (simp add: train_def train_loop_def with_pretrain_def Let_def)

text \<open>What one epoch that ends without an exception does to the counters and histories.\<close>

lemma epoch_body_Inr:
  assumes "epoch_body E self X Y dev px pa epoch s = Some (Inr (fl, s'))"
  shows "epochs_run s' = epochs_run s + 1 \<and>
     length (train_losses s') = length (train_losses s) + (if fl = Break then 0 else 1) \<and>
     (\<exists>ws. ckpt_writes s' = ckpt_writes s @ ws) \<and>
     (fl = Normal \<longrightarrow> train_losses s' \<noteq> []) \<and>
     (fl = Normal \<longrightarrow> data_name self \<noteq> ''megaverid'' \<longrightarrow> dev_rs s' \<noteq> [])"
  using assms
proof (cases rule: epoch_body_cases)
  case (conv m1 l fed)
  from convergence_update_Inr[OF conv(3)] show ?thesis
    using conv(1) by (auto simp: after_pass_simps)
next
  case (val m1 l fed m2 dl preds)
  from validation_update_Inr[OF val(4)] show ?thesis
    by (auto simp: after_pass_simps)
qed

lemma epoch_body_returns:
  assumes B: "0 < train_batch_size self"
    and tl: "epoch \<noteq> 0 \<Longrightarrow> train_losses s \<noteq> []"
    and dr: "epoch \<noteq> 0 \<Longrightarrow> data_name self \<noteq> ''megaverid'' \<Longrightarrow> dev_rs s \<noteq> []"
  shows "\<exists>fl s'. epoch_body E self X Y dev px pa epoch s = Some (Inr (fl, s'))"
proof -
  obtain m1 l fed where tp: "train_pass E self X Y px pa (length X) (model s) = Some (Inr (m1, l, fed))"
    using train_pass_returns[OF B, of E X Y px pa "length X" "model s"] by blast
  show ?thesis
  proof (cases "data_name self = ''megaverid''")
    case True
    have "\<exists>fl s'. convergence_update epoch l (after_pass s m1) = Inr (fl, s')"
      by (rule convergence_update_returns) (simp add: after_pass_simps tl)
    then show ?thesis using epoch_body_megaverid[OF True tp] by auto
  next
    case False
    obtain dl preds where pr: "predict E self m1 (fst dev) (snd dev) None = Some (eval_mode E m1, dl, preds)"
      using predict_returns[OF B, of E m1 "fst dev" "snd dev" None] by blast
    have "\<exists>fl s'. validation_update epoch l dl (pearsonr E preds (snd dev)) (after_pass s (eval_mode E m1)) = Inr (fl, s')"
      by (rule validation_update_returns) (simp add: after_pass_simps dr False)
    then show ?thesis using epoch_body_validation[OF False tp pr] by auto
  qed
qed

lemma for_epochs_Normal:
  "for_epochs E self X Y dev px pa es s = Some (Inr (Normal, s')) \<Longrightarrow>
     epochs_run s' = epochs_run s + length es \<and>
     length (train_losses s') = length (train_losses s) + length es"
proof (induction es arbitrary: s)
  case Nil
  then show ?case by simp
next
  case (Cons e es)
  from Cons.prems obtain s1 where
    b: "epoch_body E self X Y dev px pa e s = Some (Inr (Normal, s1))" and
    r: "for_epochs E self X Y dev px pa es s1 = Some (Inr (Normal, s'))"
    by (auto split: option.splits sum.splits flow.splits prod.splits)
  from epoch_body_Inr[OF b] Cons.IH[OF r] show ?case by simp
qed

text \<open>
  With a positive batch size the epoch loop returns, whatever epochs it is run on, once
  the histories are non-empty; the checkpoints written before are still in the log.
\<close>

lemma for_epochs_returns:
  assumes B: "0 < train_batch_size self"
  shows "train_losses s \<noteq> [] \<Longrightarrow> (data_name self \<noteq> ''megaverid'' \<Longrightarrow> dev_rs s \<noteq> []) \<Longrightarrow>
     \<exists>fl s'. for_epochs E self X Y dev px pa es s = Some (Inr (fl, s'))
        \<and> (\<exists>ws. ckpt_writes s' = ckpt_writes s @ ws)"
proof (induction es arbitrary: s)
  case Nil
  then show ?case by simp
next
  case (Cons e es)
  obtain fl s1 where b: "epoch_body E self X Y dev px pa e s = Some (Inr (fl, s1))"
    using epoch_body_returns[OF B, of e s] Cons.prems by blast
  from epoch_body_Inr[OF b] obtain ws1 where w1: "ckpt_writes s1 = ckpt_writes s @ ws1" by blast
  show ?case
  proof (cases fl)
    case Break
    then show ?thesis using b w1 by simp
  next
    case Normal
    from epoch_body_Inr[OF b] Normal
    have "train_losses s1 \<noteq> []" "data_name self \<noteq> ''megaverid'' \<Longrightarrow> dev_rs s1 \<noteq> []" by auto
    from Cons.IH[OF this] obtain fl' s' ws where
      "for_epochs E self X Y dev px pa es s1 = Some (Inr (fl', s'))" "ckpt_writes s' = ckpt_writes s1 @ ws"
      by blast
    then show ?thesis using b Normal w1 by simp
  qed
qed

lemma upt_split:
  assumes "e < n"
  shows "[0..<n] = [0..<e] @ e # [Suc e..<n]"
proof -
  have "[0..<e + (n - e)] = [0..<e] @ [e..<e + (n - e)]"
    by (rule upt_add_eq_append) simp
  then show ?thesis using assms by (simp add: upt_conv_Cons)
qed

lemma train_loop_split:
  assumes "e < n" and "train_loop E self X Y dev px pa [0..<e] = Some (Inr (Normal, s))"
  shows "train_loop E self X Y dev px pa [0..<n]
           = for_epochs E (with_pretrain self px pa) X Y dev px pa (e # [Suc e..<n]) s"
  using assms(2) unfolding train_loop_def upt_split[OF assms(1)] for_epochs_append
  by simp

lemma train_loop_Normal:
  assumes "train_loop E self X Y dev px pa [0..<e] = Some (Inr (Normal, s))"
  shows "epochs_run s = e" "length (train_losses s) = e"
  using for_epochs_Normal[OF assms[unfolded train_loop_def]]
  by (simp_all add: init_state_def)

lemma train_pass_Inr_pos:
  "train_pass E self X Y px pa total_obs m = Some (Inr r) \<Longrightarrow> 0 < train_batch_size self"
  by (auto simp: train_pass_def Let_def split: if_splits)

lemma init_state_simps:
  "best_loss (init_state E) = PInf" "best_r (init_state E) = NInf"
  "train_losses (init_state E) = []" "dev_rs (init_state E) = []" "dev_losses (init_state E) = []"
  "bad_count (init_state E) = 0" "ckpt_writes (init_state E) = []" "epochs_run (init_state E) = 0"
  "model (init_state E) = new_model E"
  by (simp_all add: init_state_def)







text \<open>
  With a positive training batch size \<^verbatim>\<open>train\<close> returns: no loop runs forever and
  \<^verbatim>\<open>train_losses[-1]\<close>, \<^verbatim>\<open>dev_rs[-1]\<close> are never read from an empty list. With batch
  size 0 the first epoch raises at the progress bar.
\<close>

lemma train_returns:
  assumes B: "0 < train_batch_size self"
  shows "\<exists>fl s. train E self X Y dev px pa = Some (Inr (fl, s))"
proof (cases "epochs self")
  case 0
  then show ?thesis by (simp add: train_eq_train_loop train_loop_def)
next
  case (Suc n)
  let ?self = "with_pretrain self px pa"
  have B': "0 < train_batch_size ?self" using B by (simp add: with_pretrain_simps)
  have up: "[0..<epochs self] = 0 # [1..<epochs self]" using Suc by (simp add: upt_conv_Cons)
  obtain fl s1 where b: "epoch_body E ?self X Y dev px pa 0 (init_state E) = Some (Inr (fl, s1))"
    using epoch_body_returns[OF B', of 0 "init_state E" E X Y dev px pa] by auto
  show ?thesis
  proof (cases fl)
    case Break
    then show ?thesis using b up by (simp add: train_eq_train_loop train_loop_def)
  next
    case Normal
    from epoch_body_Inr[OF b] Normal
    have ne: "train_losses s1 \<noteq> []" "data_name ?self \<noteq> ''megaverid'' \<Longrightarrow> dev_rs s1 \<noteq> []"
      by auto
    from for_epochs_returns[OF B' ne, of E X Y dev px pa "[1..<epochs self]"]
    obtain fl' s where "for_epochs E ?self X Y dev px pa [1..<epochs self] s1 = Some (Inr (fl', s))"
      by blast
    then show ?thesis using b Normal up by (simp add: train_eq_train_loop train_loop_def)
  qed
qed

lemma train_pass_zero:
  "train_batch_size self = 0 \<Longrightarrow>
     train_pass E self X Y px pa total_obs m = Some (Inl ZeroDivisionError)"
  by (simp add: train_pass_def)

section \<open>The batches of a training epoch\<close>

text \<open>
  C1. Claimed: for a data set with \<open>0 < total \<le> B\<close> one pass of the training loop
  processes exactly one batch spanning the whole data set. The code does not: the
  trailing batch is processed inside the body of \<^verbatim>\<open>while bidx_j < total_obs\<close>, which is
  never entered when \<open>total \<le> B\<close>. With 3 examples and batch size 5 the pass feeds no
  batch to the model, takes no optimizer step and reports the mean of an empty list, NaN.
\<close>

theorem C1_small_dataset_feeds_no_batch:
  "train_pass demo_env (demo_trainer 1 5 128 ''megaverid'') (take 3 demo_X) (take 3 demo_Y)
      None None 3 (new_model demo_env)
     = Some (Inr (new_model demo_env, NaN, []))"
  by (simp add: train_pass_small demo_trainer_def demo_env_def)

text \<open>
  C2. Claimed: for every \<open>total > 0\<close> and \<open>B > 0\<close> the batches cover \<open>[0, total)\<close> and no
  example is skipped. This holds when \<open>total > B\<close> (lemma \<open>train_pass_covers\<close>) and fails
  when \<open>total \<le> B\<close>, by the defect of C1: with 4 examples and batch size 4 the examples
  fed to the model are none, not the data set.
\<close>

theorem C2_full_batch_dataset_not_covered:
  "train_pass demo_env (demo_trainer 1 4 128 ''megaverid'') (take 4 demo_X) (take 4 demo_Y)
      None None (length (take 4 demo_X)) (new_model demo_env)
     = Some (Inr (new_model demo_env, NaN, []))
   \<and> fed_slices (take 4 demo_X) [] \<noteq> take 4 demo_X"
  by (simp add: train_pass_small demo_trainer_def demo_env_def demo_X_def fed_slices_def)

section \<open>Inference\<close>

text \<open>
  C3. Claimed: in \<^verbatim>\<open>predict\<close> and \<^verbatim>\<open>predict_grad\<close> every batch after the first is
  sliced at \<open>predict_batch_size\<close>. The code advances the cursor by
  \<open>train_batch_size\<close> in both: with \<open>predict_batch_size = 2\<close>, \<open>train_batch_size = 3\<close> and
  7 examples the slices are \<open>[0:2]\<close>, \<open>[2:5]\<close>, \<open>[5:8]\<close>, the second and third of width 3.
  (The loops are run from their initial state, cursors \<open>0\<close> and \<open>predict_batch_size\<close> and
  the zero tensor, on a model that predicts 5.)
\<close>

theorem C3_predict_advances_by_train_batch_size:
  "predict_while demo_env (demo_trainer 1 3 2 ''x'') 5 demo_X demo_Y None 7 0 2
      (replicate 7 (Fin 0), [], [])
     = Some (replicate 7 (Fin 5), [Fin 1, Fin 1, Fin 1], [(0, 2), (2, 5), (5, 8)])
   \<and> predict_grad_while demo_env (demo_trainer 1 3 2 ''x'') 5 demo_X 7 0 2
      (replicate 7 (Fin 0), [])
     = Some (replicate 7 (Fin 5), [(0, 2), (2, 5), (5, 8)])"
  by code_simp

text \<open>
  C9. Claimed: for every data set size and inference batch size, entry \<open>k\<close> of the
  vector returned by \<^verbatim>\<open>predict\<close> is the model's prediction for example \<open>k\<close>. This holds
  when the data set is longer than \<open>predict_batch_size\<close> (lemma \<open>predict_covers\<close>). When
  it is not, the loop body never runs: with 3 examples, \<open>predict_batch_size = 4\<close> and a
  model that predicts 5 for every example, \<^verbatim>\<open>predict\<close> returns three zeros and a NaN loss.
\<close>

theorem C9_predict_small_dataset_returns_zeros:
  "predict demo_env (demo_trainer 1 3 4 ''x'') 5 (take 3 demo_X) (take 3 demo_Y) None
     = Some (5, NaN, [Fin 0, Fin 0, Fin 0])
   \<and> map (\<lambda>(w, s). score demo_env (eval_mode demo_env 5) w s) (take 3 demo_X)
     = [Fin 5, Fin 5, Fin 5]"
  by (simp add: predict_small demo_trainer_def demo_env_def demo_X_def)

section \<open>The loss\<close>

text \<open>
  C8. The scalar returned by \<^verbatim>\<open>_custom_loss\<close> is the same for all values of the
  arguments \<open>pretrain_x\<close> and \<open>pretrain_actual\<close>, \<^verbatim>\<open>None\<close> included.
\<close>

theorem C8_custom_loss_ignores_pretraining:
  "custom_loss E predicted actual px pa = custom_loss E predicted actual px' pa'"
  by (simp add: custom_loss_def)

section \<open>Checkpoints\<close>

text \<open>
  C6. In every epoch the checkpoint file is written if and only if the tracked best
  value strictly improves in that epoch: with the data name \<^verbatim>\<open>megaverid\<close> when the
  train loss of the epoch is strictly below \<open>best_loss\<close>, otherwise when the dev
  correlation of the epoch is strictly above \<open>best_r\<close>. An epoch run with a positive
  batch size, and after the first epoch with the history of its mode non-empty (as it is
  in every run of \<^verbatim>\<open>train\<close>), ends without an exception; the checkpoint log has
  gained this epoch exactly when its metric is strictly better than the tracked best,
  and the tracked best becomes the new value exactly then.
\<close>

theorem C6_checkpoint_iff_strict_improvement:
  assumes B: "0 < train_batch_size self"
    and hist: "epoch \<noteq> 0 \<Longrightarrow>
                 (if data_name self = ''megaverid'' then train_losses s \<noteq> [] else dev_rs s \<noteq> [])"
  shows "\<exists>m1 l fed fl s'.
     train_pass E self X Y px pa (length X) (model s) = Some (Inr (m1, l, fed)) \<and>
     epoch_body E self X Y dev px pa epoch s = Some (Inr (fl, s')) \<and>
     (if data_name self = ''megaverid''
      then ckpt_writes s' = (if flt l (best_loss s) then ckpt_writes s @ [epoch] else ckpt_writes s)
         \<and> best_loss s' = (if flt l (best_loss s) then l else best_loss s)
      else \<exists>m2 dl preds.
             predict E self m1 (fst dev) (snd dev) None = Some (m2, dl, preds) \<and>
             ckpt_writes s' = (if fgt (pearsonr E preds (snd dev)) (best_r s)
                               then ckpt_writes s @ [epoch] else ckpt_writes s) \<and>
             best_r s' = (if fgt (pearsonr E preds (snd dev)) (best_r s)
                          then pearsonr E preds (snd dev) else best_r s))"
proof -
  obtain m1 l fed where
    tp: "train_pass E self X Y px pa (length X) (model s) = Some (Inr (m1, l, fed))"
    using train_pass_returns[OF B, of E X Y px pa "length X" "model s"] by blast
  show ?thesis
  proof (cases "data_name self = ''megaverid''")
    case True
    have "\<exists>fl s'. convergence_update epoch l (after_pass s m1) = Inr (fl, s')"
      using hist True by (intro convergence_update_returns) (simp add: after_pass_simps)
    then obtain fl s' where u: "convergence_update epoch l (after_pass s m1) = Inr (fl, s')"
      by blast
    have b: "epoch_body E self X Y dev px pa epoch s = Some (Inr (fl, s'))"
      using epoch_body_megaverid[OF True tp] u by simp
    from convergence_update_Inr(5,6)[OF u] tp b True show ?thesis
      by (auto simp: after_pass_simps)
  next
    case False
    obtain dl preds where
      pr: "predict E self m1 (fst dev) (snd dev) None = Some (eval_mode E m1, dl, preds)"
      using predict_returns[OF B, of E m1 "fst dev" "snd dev" None] by blast
    let ?r = "pearsonr E preds (snd dev)"
    have "\<exists>fl s'. validation_update epoch l dl ?r (after_pass s (eval_mode E m1)) = Inr (fl, s')"
      using hist False by (intro validation_update_returns) (simp add: after_pass_simps)
    then obtain fl s' where
      u: "validation_update epoch l dl ?r (after_pass s (eval_mode E m1)) = Inr (fl, s')"
      by blast
    have b: "epoch_body E self X Y dev px pa epoch s = Some (Inr (fl, s'))"
      using epoch_body_validation[OF False tp pr] u by simp
    from validation_update_Inr(2,3)[OF u] tp pr b False show ?thesis
      by (auto simp: after_pass_simps)
  qed
qed

theorem C6_witness:
  "0 < train_batch_size demo_val
   \<and> epoch_body demo_env demo_val (take 2 demo_X) (take 2 demo_Y) demo_dev None None 0
        (init_state demo_env) = Some (Inr (Normal, demo_val_1))
   \<and> fgt (Fin (1 / 2)) (best_r (init_state demo_env))
   \<and> ckpt_writes demo_val_1 = ckpt_writes (init_state demo_env) @ [0]
   \<and> best_r demo_val_1 = Fin (1 / 2)
   \<and> (3::nat) \<noteq> 0 \<and> dev_rs demo_val_3 \<noteq> []
   \<and> epoch_body demo_env demo_val (take 2 demo_X) (take 2 demo_Y) demo_dev None None 3
        demo_val_3 = Some (Inr (Break, demo_val_4))
   \<and> \<not> fgt (Fin (1 / 5)) (best_r demo_val_3)
   \<and> ckpt_writes demo_val_4 = ckpt_writes demo_val_3
   \<and> best_r demo_val_4 = best_r demo_val_3
   \<and> 0 < train_batch_size demo_conv
   \<and> epoch_body demo_env demo_conv (take 2 demo_X) (take 2 demo_Y) demo_dev None None 0
        (init_state demo_env) = Some (Inr (Normal, demo_conv_1))
   \<and> flt (Fin 1) (best_loss (init_state demo_env))
   \<and> ckpt_writes demo_conv_1 = ckpt_writes (init_state demo_env) @ [0]
   \<and> best_loss demo_conv_1 = Fin 1
   \<and> (1::nat) \<noteq> 0 \<and> train_losses demo_conv_1 \<noteq> []
   \<and> epoch_body demo_env demo_conv (take 2 demo_X) (take 2 demo_Y) demo_dev None None 1
        demo_conv_1 = Some (Inr (Break, demo_conv_2))
   \<and> \<not> flt (Fin 1) (best_loss demo_conv_1)
   \<and> ckpt_writes demo_conv_2 = ckpt_writes demo_conv_1
   \<and> best_loss demo_conv_2 = best_loss demo_conv_1"
proof -
  let ?X = "take 2 demo_X" and ?Y = "take 2 demo_Y"
  have Bv: "0 < train_batch_size demo_val" and Bc: "0 < train_batch_size demo_conv"
    by (simp_all add: demo_val_def demo_conv_def demo_trainer_def)
  have dv: "data_name demo_val \<noteq> ''megaverid''" and dc: "data_name demo_conv = ''megaverid''"
    by (simp_all add: demo_val_def demo_conv_def demo_trainer_def)
  have n3: "dev_rs demo_val_3 \<noteq> []" and n1: "train_losses demo_conv_1 \<noteq> []"
    by (simp_all add: demo_val_3_def demo_conv_1_def)
  have v0: "epoch_body demo_env demo_val ?X ?Y demo_dev None None 0 (init_state demo_env)
      = Some (Inr (Normal, demo_val_1))"
    by code_simp
  have v3: "epoch_body demo_env demo_val ?X ?Y demo_dev None None 3 demo_val_3
      = Some (Inr (Break, demo_val_4))"
    by code_simp
  have c0: "epoch_body demo_env demo_conv ?X ?Y demo_dev None None 0 (init_state demo_env)
      = Some (Inr (Normal, demo_conv_1))"
    by code_simp
  have c1: "epoch_body demo_env demo_conv ?X ?Y demo_dev None None 1 demo_conv_1
      = Some (Inr (Break, demo_conv_2))"
    by code_simp
  have tv0: "train_pass demo_env demo_val ?X ?Y None None (length ?X)
      (model (init_state demo_env)) = Some (Inr (2, Fin 1, [(0, 1), (1, 2)]))"
    by code_simp
  have tv3: "train_pass demo_env demo_val ?X ?Y None None (length ?X) (model demo_val_3)
      = Some (Inr (8, Fin 1, [(0, 1), (1, 2)]))"
    by code_simp
  have tc0: "train_pass demo_env demo_conv ?X ?Y None None (length ?X)
      (model (init_state demo_env)) = Some (Inr (2, Fin 1, [(0, 1), (1, 2)]))"
    by code_simp
  have tc1: "train_pass demo_env demo_conv ?X ?Y None None (length ?X) (model demo_conv_1)
      = Some (Inr (4, Fin 1, [(0, 1), (1, 2)]))"
    by code_simp
  have pv0: "predict demo_env demo_val 2 (fst demo_dev) (snd demo_dev) None
      = Some (2, Fin 1, [Fin 2, Fin 2])"
    by code_simp
  have pv3: "predict demo_env demo_val 8 (fst demo_dev) (snd demo_dev) None
      = Some (8, Fin 1, [Fin 8, Fin 8])"
    by code_simp
  have rv0: "pearsonr demo_env [Fin 2, Fin 2] (snd demo_dev) = Fin (1 / 2)"
    and rv3: "pearsonr demo_env [Fin 8, Fin 8] (snd demo_dev) = Fin (1 / 5)"
    by (simp_all add: demo_env_def)
  have gv0: "fgt (Fin (1 / 2)) (best_r (init_state demo_env))"
    and gv3: "\<not> fgt (Fin (1 / 5)) (best_r demo_val_3)"
    and gc0: "flt (Fin 1) (best_loss (init_state demo_env))"
    and gc1: "\<not> flt (Fin 1) (best_loss demo_conv_1)"
    by (simp_all add: init_state_def demo_val_3_def demo_conv_1_def fgt_def)
  from C6_checkpoint_iff_strict_improvement[where self = demo_val and epoch = 0
      and s = "init_state demo_env" and E = demo_env and X = "?X" and Y = "?Y"
      and px = None and pa = None and dev = demo_dev]
    Bv v0 tv0 pv0 rv0 gv0 dv
  have w0: "ckpt_writes demo_val_1 = ckpt_writes (init_state demo_env) @ [0]
      \<and> best_r demo_val_1 = Fin (1 / 2)"
    by auto
  from C6_checkpoint_iff_strict_improvement[where self = demo_val and epoch = 3
      and s = demo_val_3 and E = demo_env and X = "?X" and Y = "?Y"
      and px = None and pa = None and dev = demo_dev]
    Bv n3 v3 tv3 pv3 rv3 gv3 dv
  have w3: "ckpt_writes demo_val_4 = ckpt_writes demo_val_3
      \<and> best_r demo_val_4 = best_r demo_val_3"
    by auto
  from C6_checkpoint_iff_strict_improvement[where self = demo_conv and epoch = 0
      and s = "init_state demo_env" and E = demo_env and X = "?X" and Y = "?Y"
      and px = None and pa = None and dev = demo_dev]
    Bc c0 tc0 gc0 dc
  have x0: "ckpt_writes demo_conv_1 = ckpt_writes (init_state demo_env) @ [0]
      \<and> best_loss demo_conv_1 = Fin 1"
    by auto
  from C6_checkpoint_iff_strict_improvement[where self = demo_conv and epoch = 1
      and s = demo_conv_1 and E = demo_env and X = "?X" and Y = "?Y"
      and px = None and pa = None and dev = demo_dev]
    Bc n1 c1 tc1 gc1 dc
  have x1: "ckpt_writes demo_conv_2 = ckpt_writes demo_conv_1
      \<and> best_loss demo_conv_2 = best_loss demo_conv_1"
    by auto
  show ?thesis
    using Bv Bc v0 v3 c0 c1 gv0 gv3 gc0 gc1 n3 n1 w0 w3 x0 x1 by simp
qed

text \<open>
  C5. Claimed: every call of \<^verbatim>\<open>train\<close> with at least one epoch writes a checkpoint,
  because the metric of epoch 0 always improves on the initial best values. The
  comparisons are strict comparisons of floats, and NaN compares below and above nothing:
  with 3 training examples, batch size 5 and the data name \<^verbatim>\<open>megaverid\<close> the train loss
  of the only epoch is the mean of no batch losses, NaN, and \<^verbatim>\<open>train\<close> returns without
  having written a checkpoint.
\<close>

theorem C5_counterexample:
  "train demo_env (demo_trainer 1 5 128 ''megaverid'') (take 3 demo_X) (take 3 demo_Y)
      demo_dev None None
     = Some (Inr (Normal,
         \<lparr>model = 0, best_loss = PInf, best_r = NInf, train_losses = [NaN], dev_losses = [],
          dev_rs = [], bad_count = 0, ckpt_writes = [], epochs_run = 1\<rparr>))"
  by code_simp

text \<open>
  C5, amended. A call of \<^verbatim>\<open>train\<close> with at least one epoch whose metric of epoch 0 is
  strictly better than the initial best value (a train loss \<open>l0 < +inf\<close> with the data
  name \<^verbatim>\<open>megaverid\<close>, otherwise a dev correlation \<open>> -inf\<close>; neither holds for NaN)
  returns, and has written a checkpoint at epoch 0. The batch pass of epoch 0 is the one
  that starts from the fresh model.
\<close>

theorem C5_first_epoch_checkpoint:
  assumes ep: "1 \<le> epochs self"
    and tp: "train_pass E (with_pretrain self px pa) X Y px pa (length X) (new_model E)
               = Some (Inr (m1, l0, fed))"
    and better: "if data_name self = ''megaverid'' then flt l0 PInf
                 else \<exists>m2 dl preds.
                        predict E (with_pretrain self px pa) m1 (fst dev) (snd dev) None
                          = Some (m2, dl, preds) \<and>
                        fgt (pearsonr E preds (snd dev)) NInf"
  shows "\<exists>fl s. train E self X Y dev px pa = Some (Inr (fl, s)) \<and> 0 \<in> set (ckpt_writes s)"
proof -
  let ?self = "with_pretrain self px pa"
  have B: "0 < train_batch_size ?self" using train_pass_Inr_pos[OF tp] .
  have tp': "train_pass E ?self X Y px pa (length X) (model (init_state E)) = Some (Inr (m1, l0, fed))"
    using tp by (simp add: init_state_simps)
  have "\<exists>s1. epoch_body E ?self X Y dev px pa 0 (init_state E) = Some (Inr (Normal, s1))
          \<and> 0 \<in> set (ckpt_writes s1)"
  proof (cases "data_name self = ''megaverid''")
    case True
    then have dn: "data_name ?self = ''megaverid''" by (simp add: with_pretrain_simps)
    show ?thesis
      unfolding epoch_body_megaverid[OF dn tp']
      using better True
      by (simp add: convergence_update_def Let_def after_pass_simps init_state_simps)
  next
    case False
    then have dn: "data_name ?self \<noteq> ''megaverid''" by (simp add: with_pretrain_simps)
    from better False obtain m2 dl preds where
      pr: "predict E ?self m1 (fst dev) (snd dev) None = Some (m2, dl, preds)" and
      gt: "fgt (pearsonr E preds (snd dev)) NInf" by auto
    show ?thesis
      unfolding epoch_body_validation[OF dn tp' pr]
      using gt
      by (simp add: validation_update_def Let_def after_pass_simps init_state_simps)
  qed
  then obtain s1 where
    b: "epoch_body E ?self X Y dev px pa 0 (init_state E) = Some (Inr (Normal, s1))" and
    w: "0 \<in> set (ckpt_writes s1)" by blast
  from epoch_body_Inr[OF b]
  have ne: "train_losses s1 \<noteq> []" "data_name ?self \<noteq> ''megaverid'' \<Longrightarrow> dev_rs s1 \<noteq> []"
    by auto
  from for_epochs_returns[OF B ne, of E X Y dev px pa "[1..<epochs self]"]
  obtain fl s ws where
    r: "for_epochs E ?self X Y dev px pa [1..<epochs self] s1 = Some (Inr (fl, s))" and
    ws: "ckpt_writes s = ckpt_writes s1 @ ws" by blast
  have "[0..<epochs self] = 0 # [1..<epochs self]" using ep by (simp add: upt_conv_Cons)
  then have "train E self X Y dev px pa = Some (Inr (fl, s))"
    using b r by (simp add: train_eq_train_loop train_loop_def)
  then show ?thesis using w ws by auto
qed

theorem C5_witness:
  "1 \<le> epochs demo_conv
   \<and> train_pass demo_env (with_pretrain demo_conv None None) (take 2 demo_X) (take 2 demo_Y)
        None None (length (take 2 demo_X)) (new_model demo_env)
       = Some (Inr (2, Fin 1, [(0, 1), (1, 2)]))
   \<and> data_name demo_conv = ''megaverid'' \<and> flt (Fin 1) PInf
   \<and> (\<exists>fl s. train demo_env demo_conv (take 2 demo_X) (take 2 demo_Y) demo_dev None None
           = Some (Inr (fl, s)) \<and> 0 \<in> set (ckpt_writes s))
   \<and> 1 \<le> epochs demo_val
   \<and> train_pass demo_env (with_pretrain demo_val None None) (take 2 demo_X) (take 2 demo_Y)
        None None (length (take 2 demo_X)) (new_model demo_env)
       = Some (Inr (2, Fin 1, [(0, 1), (1, 2)]))
   \<and> data_name demo_val \<noteq> ''megaverid''
   \<and> predict demo_env (with_pretrain demo_val None None) 2 (fst demo_dev) (snd demo_dev) None
       = Some (2, Fin 1, [Fin 2, Fin 2])
   \<and> fgt (pearsonr demo_env [Fin 2, Fin 2] (snd demo_dev)) NInf
   \<and> (\<exists>fl s. train demo_env demo_val (take 2 demo_X) (take 2 demo_Y) demo_dev None None
           = Some (Inr (fl, s)) \<and> 0 \<in> set (ckpt_writes s))"
proof -
  have ea: "1 \<le> epochs demo_conv" and eb: "1 \<le> epochs demo_val"
    by (simp_all add: demo_conv_def demo_val_def demo_trainer_def)
  have da: "data_name demo_conv = ''megaverid''" and db: "data_name demo_val \<noteq> ''megaverid''"
    by (simp_all add: demo_conv_def demo_val_def demo_trainer_def)
  have ta: "train_pass demo_env (with_pretrain demo_conv None None) (take 2 demo_X)
      (take 2 demo_Y) None None (length (take 2 demo_X)) (new_model demo_env)
        = Some (Inr (2, Fin 1, [(0, 1), (1, 2)]))"
    by code_simp
  have tb: "train_pass demo_env (with_pretrain demo_val None None) (take 2 demo_X)
      (take 2 demo_Y) None None (length (take 2 demo_X)) (new_model demo_env)
        = Some (Inr (2, Fin 1, [(0, 1), (1, 2)]))"
    by code_simp
  have pb: "predict demo_env (with_pretrain demo_val None None) 2 (fst demo_dev) (snd demo_dev)
      None = Some (2, Fin 1, [Fin 2, Fin 2])"
    by code_simp
  have ga: "flt (Fin 1) PInf" by simp
  have gb: "fgt (pearsonr demo_env [Fin 2, Fin 2] (snd demo_dev)) NInf"
    by (simp add: demo_env_def fgt_def)
  have ha: "if data_name demo_conv = ''megaverid'' then flt (Fin 1) PInf
            else \<exists>m2 dl preds.
                   predict demo_env (with_pretrain demo_conv None None) 2 (fst demo_dev)
                     (snd demo_dev) None = Some (m2, dl, preds) \<and>
                   fgt (pearsonr demo_env preds (snd demo_dev)) NInf"
    using da ga by simp
  have hb: "if data_name demo_val = ''megaverid'' then flt (Fin 1) PInf
            else \<exists>m2 dl preds.
                   predict demo_env (with_pretrain demo_val None None) 2 (fst demo_dev)
                     (snd demo_dev) None = Some (m2, dl, preds) \<and>
                   fgt (pearsonr demo_env preds (snd demo_dev)) NInf"
    using db pb gb by simp
  from C5_first_epoch_checkpoint[OF ea ta ha]
       C5_first_epoch_checkpoint[OF eb tb hb]
  show ?thesis using ea eb da db ta tb pb ga gb by simp
qed

section \<open>The histories and the two ways of stopping\<close>







text \<open>
  C10. With the data name \<^verbatim>\<open>megaverid\<close>, when the stopping test fires at an epoch
  \<open>e \<ge> 1\<close> (the absolute difference between the train loss \<open>l\<close> of the epoch and the
  last recorded train loss is below \<open>0.0001\<close>), the loop breaks before that loss is
  appended: \<^verbatim>\<open>train\<close> returns the history as it was when epoch \<open>e\<close> started, which has
  exactly \<open>e\<close> entries.
\<close>

theorem C10_converged_epoch_not_appended:
  assumes conv: "data_name self = ''megaverid''"
    and e: "1 \<le> e" "e < epochs self"
    and reach: "train_loop E self X Y dev px pa [0..<e] = Some (Inr (Normal, s))"
    and tp: "train_pass E (with_pretrain self px pa) X Y px pa (length X) (model s)
               = Some (Inr (m1, l, fed))"
    and fires: "flt (fabs (fsub l (last (train_losses s)))) (Fin (1 / 10000))"
  shows "\<exists>s'. train E self X Y dev px pa = Some (Inr (Break, s'))
           \<and> train_losses s' = train_losses s \<and> length (train_losses s') = e"
proof -
  have dn: "data_name (with_pretrain self px pa) = ''megaverid''"
    using conv by (simp add: with_pretrain_simps)
  have len: "length (train_losses s) = e" by (rule train_loop_Normal(2)[OF reach])
  then have ne: "train_losses s \<noteq> []" using e(1) by auto
  have "\<exists>s'. convergence_update e l (after_pass s m1) = Inr (Break, s')
          \<and> train_losses s' = train_losses s"
    using e(1) ne fires by (simp add: convergence_update_def Let_def after_pass_simps)
  then obtain s' where
    "epoch_body E (with_pretrain self px pa) X Y dev px pa e s = Some (Inr (Break, s'))"
    "train_losses s' = train_losses s"
    using epoch_body_megaverid[OF dn tp] by auto
  then show ?thesis
    using len by (simp add: train_eq_train_loop train_loop_split[OF e(2) reach])
qed

theorem C10_witness:
  "data_name demo_conv = ''megaverid'' \<and> (1::nat) \<le> 1 \<and> 1 < epochs demo_conv
   \<and> train_loop demo_env demo_conv (take 2 demo_X) (take 2 demo_Y) demo_dev None None [0..<1]
       = Some (Inr (Normal, demo_conv_1))
   \<and> train_pass demo_env (with_pretrain demo_conv None None) (take 2 demo_X) (take 2 demo_Y)
        None None (length (take 2 demo_X)) (model demo_conv_1)
       = Some (Inr (4, Fin 1, [(0, 1), (1, 2)]))
   \<and> flt (fabs (fsub (Fin 1) (last (train_losses demo_conv_1)))) (Fin (1 / 10000))
   \<and> (\<exists>s'. train demo_env demo_conv (take 2 demo_X) (take 2 demo_Y) demo_dev None None
           = Some (Inr (Break, s'))
         \<and> train_losses s' = train_losses demo_conv_1 \<and> length (train_losses s') = 1)"
proof -
  have d: "data_name demo_conv = ''megaverid''" and e: "(1::nat) \<le> 1" "1 < epochs demo_conv"
    by (simp_all add: demo_conv_def demo_trainer_def)
  have r: "train_loop demo_env demo_conv (take 2 demo_X) (take 2 demo_Y) demo_dev None None
      [0..<1] = Some (Inr (Normal, demo_conv_1))"
    by code_simp
  have t: "train_pass demo_env (with_pretrain demo_conv None None) (take 2 demo_X)
      (take 2 demo_Y) None None (length (take 2 demo_X)) (model demo_conv_1)
        = Some (Inr (4, Fin 1, [(0, 1), (1, 2)]))"
    by code_simp
  have f: "flt (fabs (fsub (Fin 1) (last (train_losses demo_conv_1)))) (Fin (1 / 10000))"
    by (simp add: demo_conv_1_def fsub_def)
  from C10_converged_epoch_not_appended[OF d e r t f]
  show ?thesis using d e r t f by simp
qed

end
